theory Spec2Isabelle
  imports Main "HOL-Library.AList"
begin

section \<open>Python strings\<close>

text \<open>
  A Python \<open>str\<close> is modelled as a \<open>string\<close>, one \<open>char\<close> per code point, so the model
  covers the code points below 256. \<open>isspace\<close> lists the characters of that range for
  which \<open>str.isspace()\<close> holds; \<open>strip\<close> is \<open>str.strip()\<close> without argument and
  \<open>lower\<close> is \<open>str.lower()\<close>.
\<close>

definition isspace :: "char \<Rightarrow> bool" where
  "isspace c = (c \<in> set [CHR 0x09, CHR 0x0A, CHR 0x0B, CHR 0x0C, CHR 0x0D,
                          CHR 0x1C, CHR 0x1D, CHR 0x1E, CHR 0x1F, CHR 0x20,
                          CHR 0x85, CHR 0xA0])"

definition strip :: "string \<Rightarrow> string" where
  "strip s = rev (dropWhile isspace (rev (dropWhile isspace s)))"

definition lower_char :: "char \<Rightarrow> char" where
  "lower_char c =
     (let n = (of_char c :: nat)
      in if (65 \<le> n \<and> n \<le> 90) \<or> (192 \<le> n \<and> n \<le> 222 \<and> n \<noteq> 215)
         then char_of (n + 32) else c)"

definition lower :: "string \<Rightarrow> string" where
  "lower s = map lower_char s"

section \<open>The form library the views call\<close>

text \<open>
  \<open>views.py\<close> declares \<open>ContactForm\<close> as a subclass of \<open>django.forms.Form\<close> with four
  fields and calls \<open>is_valid()\<close> and \<open>cleaned_data\<close> on it. The framework is not among
  the repository's sources; this section models the part of it the declaration uses,
  along the framework's own pipeline: the widget reads the raw value from the submitted
  data, \<open>Field.clean\<close> runs \<open>to_python\<close>, \<open>validate\<close> and \<open>run_validators\<close>, and
  \<open>Form.full_clean\<close> collects cleaned values and errors field by field.
  The check of an e-mail address's shape (\<open>validate_email\<close>) is a parameter of the
  model, passed as the first argument wherever it is needed: \<open>True\<close> means the address
  is accepted.
\<close>

text \<open>
  \<open>request.POST\<close>: the submitted pairs in the order of the request body. \<open>get\<close> returns
  the last value submitted under a key, \<open>None\<close> when the key is absent.
\<close>

type_synonym QueryDict = "(string \<times> string) list"

definition QueryDict_get :: "QueryDict \<Rightarrow> string \<Rightarrow> string option" where
  "QueryDict_get d k = map_of (rev d) k"

text \<open>The values widgets hand to fields and fields clean to: \<open>None\<close>, a \<open>str\<close>, a \<open>bool\<close>.\<close>

datatype formval = FNone | FStr string | FBool bool

text \<open>Python's \<open>bool(v)\<close> and \<open>str(v)\<close> on these values.\<close>

fun truth :: "formval \<Rightarrow> bool" where
  "truth FNone = False"
| "truth (FStr s) = (s \<noteq> [])"
| "truth (FBool b) = b"

fun py_str :: "formval \<Rightarrow> string" where
  "py_str FNone = ''None''"
| "py_str (FStr s) = s"
| "py_str (FBool b) = (if b then ''True'' else ''False'')"

text \<open>The codes of the validation errors the declared fields can raise.\<close>

datatype error_code = Required | Max_length | Null_characters_not_allowed | Invalid

datatype Widget = TextInput | Textarea | EmailInput | CheckboxInput

text \<open>
  A field as declared: \<open>CharField(max_length, required, widget)\<close>, \<open>EmailField(required)\<close>,
  \<open>BooleanField(required)\<close>. The last two have a fixed widget, and the e-mail field is
  declared without \<open>max_length\<close>, so it has the default of 320.
\<close>

datatype Field =
    CharField "nat option" bool Widget
  | EmailField bool
  | BooleanField bool

fun required :: "Field \<Rightarrow> bool" where
  "required (CharField m r w) = r"
| "required (EmailField r) = r"
| "required (BooleanField r) = r"

fun widget :: "Field \<Rightarrow> Widget" where
  "widget (CharField m r w) = w"
| "widget (EmailField r) = EmailInput"
| "widget (BooleanField r) = CheckboxInput"

text \<open>
  \<open>Widget.value_from_datadict\<close>. A checkbox absent from the data is \<open>False\<close>; one that is
  present maps \<open>true\<close>, \<open>false\<close> and \<open>on\<close> (in any case) to their booleans and takes the
  truth value of anything else. Every other widget returns \<open>data.get(name)\<close>.
\<close>

fun value_from_datadict :: "Widget \<Rightarrow> QueryDict \<Rightarrow> string \<Rightarrow> formval" where
  "value_from_datadict CheckboxInput d name =
     (case QueryDict_get d name of
        None \<Rightarrow> FBool False
      | Some v \<Rightarrow>
          FBool (truth (case map_of [(''true'', FBool True), (''false'', FBool False),
                                     (''on'', FBool True)] (lower v) of
                          Some b \<Rightarrow> b
                        | None \<Rightarrow> FStr v)))"
| "value_from_datadict w d name =
     (case QueryDict_get d name of None \<Rightarrow> FNone | Some v \<Rightarrow> FStr v)"

text \<open>\<open>value in self.empty_values\<close>: of the values here, \<open>None\<close> and the empty string.\<close>

definition in_empty_values :: "formval \<Rightarrow> bool" where
  "in_empty_values v = (v = FNone \<or> v = FStr [])"

text \<open>
  \<open>to_python\<close>. A character field (and the e-mail field, its subclass) turns a
  non-empty value into a string and strips it (\<open>strip=True\<close> is the default), and
  returns the empty string for an empty one. A boolean field maps the strings
  \<open>false\<close> and \<open>0\<close> to \<open>False\<close> and takes the truth value of anything else.
\<close>

fun to_python :: "Field \<Rightarrow> formval \<Rightarrow> formval" where
  "to_python (BooleanField r) v =
     (case v of
        FStr s \<Rightarrow> if lower s = ''false'' \<or> lower s = ''0'' then FBool False else FBool (truth v)
      | _ \<Rightarrow> FBool (truth v))"
| "to_python f v =
     (let v1 = (if \<not> in_empty_values v then FStr (strip (py_str v)) else v)
      in if in_empty_values v1 then FStr [] else v1)"

text \<open>
  \<open>validate\<close>: a required field rejects an empty value; a required boolean field
  rejects \<open>False\<close>.
\<close>

fun validate :: "Field \<Rightarrow> formval \<Rightarrow> error_code list" where
  "validate (BooleanField r) v = (if \<not> truth v \<and> r then [Required] else [])"
| "validate f v = (if in_empty_values v \<and> required f then [Required] else [])"

text \<open>
  The validators of a field, in the order they run. A character field has
  \<open>MaxLengthValidator\<close> when \<open>max_length\<close> is given, then
  \<open>ProhibitNullCharactersValidator\<close>. The e-mail field is a character field whose
  \<open>max_length\<close> defaults to 320, with \<open>validate_email\<close> before the other two.
\<close>

definition MaxLengthValidator :: "nat \<Rightarrow> string \<Rightarrow> error_code list" where
  "MaxLengthValidator limit s = (if length s > limit then [Max_length] else [])"

definition ProhibitNullCharactersValidator :: "string \<Rightarrow> error_code list" where
  "ProhibitNullCharactersValidator s =
     (if CHR 0x00 \<in> set s then [Null_characters_not_allowed] else [])"

fun validators :: "(string \<Rightarrow> bool) \<Rightarrow> Field \<Rightarrow> (string \<Rightarrow> error_code list) list" where
  "validators validate_email (CharField m r w) =
     (case m of None \<Rightarrow> [] | Some n \<Rightarrow> [MaxLengthValidator n])
     @ [ProhibitNullCharactersValidator]"
| "validators validate_email (EmailField r) =
     [\<lambda>s. if validate_email s then [] else [Invalid],
      MaxLengthValidator 320, ProhibitNullCharactersValidator]"
| "validators validate_email (BooleanField r) = []"

text \<open>
  \<open>run_validators\<close> skips an empty value and otherwise collects the errors of all
  validators. (A value that is not a string only reaches it from a boolean field, which
  has no validator.)
\<close>

definition run_validators ::
  "(string \<Rightarrow> bool) \<Rightarrow> Field \<Rightarrow> formval \<Rightarrow> error_code list" where
  "run_validators validate_email f v =
     (if in_empty_values v then []
      else case v of
             FStr s \<Rightarrow> concat (map (\<lambda>vd. vd s) (validators validate_email f))
           | _ \<Rightarrow> [])"

text \<open>\<open>Field.clean\<close>: the cleaned value, or the errors raised as \<open>ValidationError\<close>.\<close>

definition clean ::
  "(string \<Rightarrow> bool) \<Rightarrow> Field \<Rightarrow> formval \<Rightarrow> error_code list + formval" where
  "clean validate_email f raw =
     (let v = to_python f raw
      in if validate f v \<noteq> [] then Inl (validate f v)
         else if run_validators validate_email f v \<noteq> [] then
           Inl (run_validators validate_email f v)
         else Inr v)"

text \<open>A bound field's cleaning: the field cleans what its widget reads from the data.\<close>

definition clean_bound_field ::
  "(string \<Rightarrow> bool) \<Rightarrow> QueryDict \<Rightarrow> string \<Rightarrow> Field \<Rightarrow> error_code list + formval" where
  "clean_bound_field validate_email d name f =
     clean validate_email f (value_from_datadict (widget f) d name)"

text \<open>
  A form object. \<open>errors_cache\<close> is the attribute \<open>_errors\<close> (\<open>None\<close> until the form
  is cleaned); \<open>cleaned_data\<close> is \<open>None\<close> while the attribute does not exist.
\<close>

type_synonym ErrorDict = "(string \<times> error_code list) list"

record Form =
  data :: QueryDict
  is_bound :: bool
  form_fields :: "(string \<times> Field) list"
  errors_cache :: "ErrorDict option"
  cleaned_data :: "(string \<times> formval) list option"

text \<open>
  \<open>Form._clean_fields\<close>: in the order of declaration, a field's cleaned value is stored
  in \<open>cleaned_data\<close>, or its errors are added under the field's name.
\<close>

fun clean_fields ::
  "(string \<Rightarrow> bool) \<Rightarrow> QueryDict \<Rightarrow> (string \<times> Field) list \<Rightarrow>
   ErrorDict \<times> (string \<times> formval) list \<Rightarrow> ErrorDict \<times> (string \<times> formval) list" where
  "clean_fields validate_email d [] (errs, cd) = (errs, cd)"
| "clean_fields validate_email d ((name, f) # fs) (errs, cd) =
     clean_fields validate_email d fs
       (case clean_bound_field validate_email d name f of
          Inr v \<Rightarrow> (errs, AList.update name v cd)
        | Inl es \<Rightarrow>
            (AList.update name ((case map_of errs name of None \<Rightarrow> [] | Some old \<Rightarrow> old) @ es) errs,
             AList.delete name cd))"

text \<open>
  \<open>Form.full_clean\<close>: an unbound form gets an empty error dictionary and no
  \<open>cleaned_data\<close>; a bound one gets the outcome of cleaning its fields.
\<close>

definition full_clean :: "(string \<Rightarrow> bool) \<Rightarrow> Form \<Rightarrow> Form" where
  "full_clean validate_email form =
     (if \<not> is_bound form then form\<lparr>errors_cache := Some []\<rparr>
      else case clean_fields validate_email (data form) (form_fields form) ([], []) of
             (errs, cd) \<Rightarrow> form\<lparr>errors_cache := Some errs, cleaned_data := Some cd\<rparr>)"

text \<open>
  The property \<open>Form.errors\<close>: cleans the form on first use. It returns the error
  dictionary and the form as the access leaves it.
\<close>

definition errors :: "(string \<Rightarrow> bool) \<Rightarrow> Form \<Rightarrow> ErrorDict \<times> Form" where
  "errors validate_email form =
     (case errors_cache form of
        Some errs \<Rightarrow> (errs, form)
      | None \<Rightarrow>
          (let form' = full_clean validate_email form
           in (case errors_cache form' of Some errs \<Rightarrow> errs | None \<Rightarrow> [], form')))"

text \<open>\<open>Form.is_valid\<close>: \<open>self.is_bound and not self.errors\<close>.\<close>

definition is_valid :: "(string \<Rightarrow> bool) \<Rightarrow> Form \<Rightarrow> bool \<times> Form" where
  "is_valid validate_email form =
     (if \<not> is_bound form then (False, form)
      else case errors validate_email form of (errs, form') \<Rightarrow> (errs = [], form'))"

section \<open>views.py\<close>

text \<open>The four fields of \<open>class ContactForm(forms.Form)\<close>, as declared.\<close>

definition ContactForm_fields :: "(string \<times> Field) list" where
  "ContactForm_fields =
     [(''name'', CharField (Some 100) True TextInput),
      (''email'', EmailField True),
      (''message'', CharField None True Textarea),
      (''subscribe'', BooleanField False)]"

text \<open>
  \<open>ContactForm(data)\<close>: the constructor inherited from \<open>Form\<close>. Without data the form is
  unbound and its \<open>data\<close> is an empty dictionary.
\<close>

definition ContactForm :: "QueryDict option \<Rightarrow> Form" where
  "ContactForm d =
     \<lparr>data = (case d of None \<Rightarrow> [] | Some q \<Rightarrow> q),
      is_bound = (d \<noteq> None),
      form_fields = ContactForm_fields,
      errors_cache = None,
      cleaned_data = None\<rparr>"

text \<open>The values a view puts into a template context.\<close>

datatype pyval =
    PNone
  | PStr string
  | PInt int
  | PBool bool
  | PList "pyval list"
  | PDict "(string \<times> pyval) list"
  | PForm Form

fun pyval_of :: "formval \<Rightarrow> pyval" where
  "pyval_of FNone = PNone"
| "pyval_of (FStr s) = PStr s"
| "pyval_of (FBool b) = PBool b"

text \<open>
  What a view reads of a request, and what it hands to \<open>render\<close>: the template's name
  and the context. Rendering itself is the framework's.
\<close>

record HttpRequest =
  http_method :: string
  POST :: QueryDict

record TemplateResponse =
  template_name :: string
  context_data :: "(string \<times> pyval) list"

definition render :: "HttpRequest \<Rightarrow> string \<Rightarrow> (string \<times> pyval) list \<Rightarrow> TemplateResponse" where
  "render request name c = \<lparr>template_name = name, context_data = c\<rparr>"

datatype exn = KeyError string | AttributeError string

definition index :: "HttpRequest \<Rightarrow> TemplateResponse" where
  "index request =
     (let c =
        [(''user'', PDict [(''name'', PStr ''John Doe''),
                           (''email'', PStr ''john@example.com''),
                           (''role'', PStr ''admin'')]),
         (''notifications'', PList
            [PDict [(''id'', PInt 1), (''text'', PStr ''Welcome to rnxJS!''),
                    (''type'', PStr ''info'')],
             PDict [(''id'', PInt 2), (''text'', PStr ''You have 3 new messages''),
                    (''type'', PStr ''success'')]])]
      in render request ''index.html'' c)"

definition form_example :: "(string \<Rightarrow> bool) \<Rightarrow> HttpRequest \<Rightarrow> exn + TemplateResponse" where
  "form_example validate_email request =
     (if http_method request = ''POST'' then
        (case is_valid validate_email (ContactForm (Some (POST request))) of
           (valid, form) \<Rightarrow>
             if valid then
               (case cleaned_data form of
                  None \<Rightarrow> Inl (AttributeError ''cleaned_data'')
                | Some cd \<Rightarrow>
                    (case map_of cd ''name'' of
                       None \<Rightarrow> Inl (KeyError ''name'')
                     | Some v \<Rightarrow>
                         Inr (render request ''form_success.html'' [(''name'', pyval_of v)])))
             else Inr (render request ''form.html'' [(''form'', PForm form)]))
      else Inr (render request ''form.html'' [(''form'', PForm (ContactForm None))]))"

definition components_example :: "HttpRequest \<Rightarrow> TemplateResponse" where
  "components_example request =
     (let c =
        [(''users'', PList
            [PDict [(''id'', PInt 1), (''name'', PStr ''Alice''),
                    (''email'', PStr ''alice@example.com''), (''status'', PStr ''active'')],
             PDict [(''id'', PInt 2), (''name'', PStr ''Bob''),
                    (''email'', PStr ''bob@example.com''), (''status'', PStr ''inactive'')],
             PDict [(''id'', PInt 3), (''name'', PStr ''Charlie''),
                    (''email'', PStr ''charlie@example.com''), (''status'', PStr ''active'')]]),
         (''columns'', PList
            [PDict [(''key'', PStr ''id''), (''label'', PStr ''ID'')],
             PDict [(''key'', PStr ''name''), (''label'', PStr ''Name'')],
             PDict [(''key'', PStr ''email''), (''label'', PStr ''Email'')],
             PDict [(''key'', PStr ''status''), (''label'', PStr ''Status'')]])]
      in render request ''components.html'' c)"

definition plugins_example :: "HttpRequest \<Rightarrow> TemplateResponse" where
  "plugins_example request =
     (let c =
        [(''routes'', PDict [(''/'', PStr ''Home''),
                             (''/users'', PStr ''Users''),
                             (''/settings'', PStr ''Settings''),
                             (''/about'', PStr ''About'')])]
      in render request ''plugins.html'' c)"

text \<open>Reading a context: the value under a key of a dictionary, and a dictionary's keys.\<close>

fun item :: "pyval \<Rightarrow> string \<Rightarrow> pyval option" where
  "item (PDict d) k = map_of d k"
| "item v k = None"

fun keys :: "pyval \<Rightarrow> string list" where
  "keys (PDict d) = map fst d"
| "keys v = []"

text \<open>
  A sample address check for the worked examples: an address is accepted when it
  contains an \<open>@\<close>. It stands in for \<open>validate_email\<close> wherever a concrete check is
  needed.
\<close>

definition at_sign_check :: "string \<Rightarrow> bool" where
  "at_sign_check s = (CHR ''@'' \<in> set s)"

section \<open>Cleaning one field\<close>

lemma strip_Nil: "strip [] = []"
  by (simp add: strip_def)

lemma value_from_datadict_text:
  "w \<noteq> CheckboxInput \<Longrightarrow>
   value_from_datadict w d name = (case QueryDict_get d name of None \<Rightarrow> FNone | Some v \<Rightarrow> FStr v)"
  by (cases w) simp_all

lemma to_python_CharField:
  "to_python (CharField m r w) FNone = FStr []"
  "to_python (CharField m r w) (FStr x) = FStr (strip x)"
  by (auto simp: in_empty_values_def Let_def strip_def)

lemma to_python_EmailField:
  "to_python (EmailField r) FNone = FStr []"
  "to_python (EmailField r) (FStr x) = FStr (strip x)"
  by (auto simp: in_empty_values_def Let_def strip_def)

lemma clean_CharField_missing:
  "clean ve (CharField m True w) FNone = Inl [Required]"
  by (simp add: clean_def to_python_CharField in_empty_values_def)

lemma clean_CharField_str:
  "clean ve (CharField m True w) (FStr x) =
     (if strip x = [] then Inl [Required]
      else if (case m of None \<Rightarrow> [] | Some n \<Rightarrow> MaxLengthValidator n (strip x))
              @ ProhibitNullCharactersValidator (strip x) \<noteq> []
      then Inl ((case m of None \<Rightarrow> [] | Some n \<Rightarrow> MaxLengthValidator n (strip x))
              @ ProhibitNullCharactersValidator (strip x))
      else Inr (FStr (strip x)))"
  by (cases m)
    (simp_all add: clean_def to_python_CharField in_empty_values_def run_validators_def strip_Nil)

lemma clean_EmailField_missing:
  "clean ve (EmailField True) FNone = Inl [Required]"
  by (simp add: clean_def to_python_EmailField in_empty_values_def)

lemma clean_EmailField_str:
  "clean ve (EmailField True) (FStr x) =
     (if strip x = [] then Inl [Required]
      else if ve (strip x) \<and> length (strip x) \<le> 320 \<and> CHR 0x00 \<notin> set (strip x) then
        Inr (FStr (strip x))
      else Inl ((if ve (strip x) then [] else [Invalid])
                @ MaxLengthValidator 320 (strip x)
                @ ProhibitNullCharactersValidator (strip x)))"
  by (simp add: clean_def to_python_EmailField in_empty_values_def run_validators_def
      MaxLengthValidator_def ProhibitNullCharactersValidator_def strip_Nil)

lemma clean_BooleanField_optional:
  "\<exists>b. clean ve (BooleanField False) raw = Inr (FBool b)"
  by (cases raw) (auto simp: clean_def run_validators_def in_empty_values_def)

text \<open>The four fields of the contact form, each on the submitted data.\<close>

lemma name_field:
  "clean_bound_field ve d ''name'' (CharField (Some 100) True TextInput) =
     (case QueryDict_get d ''name'' of
        None \<Rightarrow> Inl [Required]
      | Some x \<Rightarrow>
          if strip x = [] then Inl [Required]
          else if 100 < length (strip x) \<or> CHR 0x00 \<in> set (strip x) then
            Inl (MaxLengthValidator 100 (strip x) @ ProhibitNullCharactersValidator (strip x))
          else Inr (FStr (strip x)))"
  by (simp add: clean_bound_field_def clean_CharField_missing clean_CharField_str
      MaxLengthValidator_def ProhibitNullCharactersValidator_def split: option.splits)

lemma message_field:
  "clean_bound_field ve d ''message'' (CharField None True Textarea) =
     (case QueryDict_get d ''message'' of
        None \<Rightarrow> Inl [Required]
      | Some x \<Rightarrow>
          if strip x = [] then Inl [Required]
          else if CHR 0x00 \<in> set (strip x) then Inl [Null_characters_not_allowed]
          else Inr (FStr (strip x)))"
  by (simp add: clean_bound_field_def clean_CharField_missing clean_CharField_str
      ProhibitNullCharactersValidator_def split: option.splits)

lemma email_field:
  "clean_bound_field ve d ''email'' (EmailField True) =
     (case QueryDict_get d ''email'' of
        None \<Rightarrow> Inl [Required]
      | Some x \<Rightarrow>
          if strip x = [] then Inl [Required]
          else if ve (strip x) \<and> length (strip x) \<le> 320 \<and> CHR 0x00 \<notin> set (strip x)
          then Inr (FStr (strip x))
          else Inl ((if ve (strip x) then [] else [Invalid])
                    @ MaxLengthValidator 320 (strip x)
                    @ ProhibitNullCharactersValidator (strip x)))"
  by (simp add: clean_bound_field_def clean_EmailField_missing clean_EmailField_str
      split: option.splits)

lemma subscribe_field:
  "\<exists>b. clean_bound_field ve d ''subscribe'' (BooleanField False) = Inr (FBool b)"
  unfolding clean_bound_field_def by (rule clean_BooleanField_optional)

lemma subscribe_field_missing:
  "QueryDict_get d ''subscribe'' = None \<Longrightarrow>
   clean_bound_field ve d ''subscribe'' (BooleanField False) = Inr (FBool False)"
  by (simp add: clean_bound_field_def clean_def run_validators_def in_empty_values_def)

section \<open>Cleaning the contact form\<close>

lemma clean_fields_ContactForm:
  "clean_fields ve d ContactForm_fields ([], []) =
     (concat (map (\<lambda>(n, f). case clean_bound_field ve d n f of
                               Inl es \<Rightarrow> [(n, es)] | Inr v \<Rightarrow> []) ContactForm_fields),
      concat (map (\<lambda>(n, f). case clean_bound_field ve d n f of
                               Inl es \<Rightarrow> [] | Inr v \<Rightarrow> [(n, v)]) ContactForm_fields))"
  by (simp add: ContactForm_fields_def split: sum.splits)

lemma errors_ContactForm:
  "errors ve (ContactForm (Some d)) =
     (fst (clean_fields ve d ContactForm_fields ([], [])),
      (ContactForm (Some d))
        \<lparr>errors_cache := Some (fst (clean_fields ve d ContactForm_fields ([], []))),
         cleaned_data := Some (snd (clean_fields ve d ContactForm_fields ([], [])))\<rparr>)"
  by (simp add: errors_def full_clean_def ContactForm_def Let_def split: prod.splits)

lemma is_valid_ContactForm:
  "is_valid ve (ContactForm (Some d)) =
     (fst (clean_fields ve d ContactForm_fields ([], [])) = [],
      (ContactForm (Some d))
        \<lparr>errors_cache := Some (fst (clean_fields ve d ContactForm_fields ([], []))),
         cleaned_data := Some (snd (clean_fields ve d ContactForm_fields ([], [])))\<rparr>)"
  by (simp add: is_valid_def errors_ContactForm) (simp add: ContactForm_def)

lemma field_errors_ContactForm:
  assumes "(n, f) \<in> set ContactForm_fields"
  shows "map_of (fst (errors ve (ContactForm (Some d)))) n =
           (case clean_bound_field ve d n f of Inl es \<Rightarrow> Some es | Inr v \<Rightarrow> None)"
proof -
  from assms consider
      "n = ''name''" "f = CharField (Some 100) True TextInput"
    | "n = ''email''" "f = EmailField True"
    | "n = ''message''" "f = CharField None True Textarea"
    | "n = ''subscribe''" "f = BooleanField False"
    by (auto simp: ContactForm_fields_def)
  then show ?thesis
    by cases
      (simp_all add: errors_ContactForm clean_fields_ContactForm ContactForm_fields_def
        split: sum.splits)
qed

lemma valid_iff_no_field_error:
  "fst (is_valid ve (ContactForm (Some d))) =
     (\<forall>(n, f) \<in> set ContactForm_fields. \<exists>v. clean_bound_field ve d n f = Inr v)"
  by (simp add: is_valid_ContactForm clean_fields_ContactForm ContactForm_fields_def
      split: sum.splits)

lemma cleaned_name_ContactForm:
  "clean_bound_field ve d ''name'' (CharField (Some 100) True TextInput) = Inr v \<Longrightarrow>
   map_of (snd (clean_fields ve d ContactForm_fields ([], []))) ''name'' = Some v"
  by (simp add: clean_fields_ContactForm ContactForm_fields_def split: sum.splits)

lemma strip_all_space:
  assumes "\<forall>c \<in> set s. isspace c"
  shows "strip s = []"
  using assms by (auto simp: strip_def dest: set_dropWhileD)

lemma strip_plain:
  "strip ''Ada'' = ''Ada''" "strip ''ada@example.com'' = ''ada@example.com''"
  "strip ''hi'' = ''hi''" "strip ''not-an-email'' = ''not-an-email''"
  by (simp_all add: strip_def isspace_def)

lemma is_valid_ContactForm_iff:
  "fst (is_valid ve (ContactForm (Some d))) =
     ((\<exists>n. QueryDict_get d ''name'' = Some n \<and> strip n \<noteq> [] \<and> length (strip n) \<le> 100 \<and>
           CHR 0x00 \<notin> set (strip n)) \<and>
      (\<exists>e. QueryDict_get d ''email'' = Some e \<and> strip e \<noteq> [] \<and> ve (strip e) \<and>
           length (strip e) \<le> 320 \<and> CHR 0x00 \<notin> set (strip e)) \<and>
      (\<exists>m. QueryDict_get d ''message'' = Some m \<and> strip m \<noteq> [] \<and>
           CHR 0x00 \<notin> set (strip m)))"
proof -
  have s: "\<exists>v. clean_bound_field ve d ''subscribe'' (BooleanField False) = Inr v"
    using subscribe_field [of ve d] by blast
  show ?thesis
    unfolding valid_iff_no_field_error
    by (simp add: ContactForm_fields_def s)
      (auto simp: name_field email_field message_field split: option.splits)
qed

text \<open>The errors recorded under each field's name.\<close>

lemma name_in_fields: "(''name'', CharField (Some 100) True TextInput) \<in> set ContactForm_fields"
  and email_in_fields: "(''email'', EmailField True) \<in> set ContactForm_fields"
  and message_in_fields: "(''message'', CharField None True Textarea) \<in> set ContactForm_fields"
  and subscribe_in_fields: "(''subscribe'', BooleanField False) \<in> set ContactForm_fields"
  by (simp_all add: ContactForm_fields_def)

lemma name_errors:
  "map_of (fst (errors ve (ContactForm (Some d)))) ''name'' =
     (case QueryDict_get d ''name'' of
        None \<Rightarrow> Some [Required]
      | Some x \<Rightarrow>
          if strip x = [] then Some [Required]
          else if 100 < length (strip x) \<or> CHR 0x00 \<in> set (strip x) then
            Some (MaxLengthValidator 100 (strip x) @ ProhibitNullCharactersValidator (strip x))
          else None)"
  by (simp add: field_errors_ContactForm [OF name_in_fields] name_field split: option.splits)

lemma email_errors:
  "map_of (fst (errors ve (ContactForm (Some d)))) ''email'' =
     (case QueryDict_get d ''email'' of
        None \<Rightarrow> Some [Required]
      | Some x \<Rightarrow>
          if strip x = [] then Some [Required]
          else if ve (strip x) \<and> length (strip x) \<le> 320 \<and> CHR 0x00 \<notin> set (strip x)
          then None
          else Some ((if ve (strip x) then [] else [Invalid])
                     @ MaxLengthValidator 320 (strip x)
                     @ ProhibitNullCharactersValidator (strip x)))"
  by (simp add: field_errors_ContactForm [OF email_in_fields] email_field split: option.splits)

lemma message_errors:
  "map_of (fst (errors ve (ContactForm (Some d)))) ''message'' =
     (case QueryDict_get d ''message'' of
        None \<Rightarrow> Some [Required]
      | Some x \<Rightarrow>
          if strip x = [] then Some [Required]
          else if CHR 0x00 \<in> set (strip x) then Some [Null_characters_not_allowed]
          else None)"
  by (simp add: field_errors_ContactForm [OF message_in_fields] message_field
      split: option.splits)

lemma subscribe_errors:
  "map_of (fst (errors ve (ContactForm (Some d)))) ''subscribe'' = None"
  using subscribe_field [of ve d]
  by (auto simp: field_errors_ContactForm [OF subscribe_in_fields])

lemma valid_iff_three_fields:
  "fst (is_valid ve (ContactForm (Some d))) =
     (map_of (fst (errors ve (ContactForm (Some d)))) ''name'' = None \<and>
      map_of (fst (errors ve (ContactForm (Some d)))) ''email'' = None \<and>
      map_of (fst (errors ve (ContactForm (Some d)))) ''message'' = None)"
  unfolding is_valid_ContactForm_iff name_errors email_errors message_errors
  by (auto split: option.splits)

text \<open>Stripping strings of one repeated character.\<close>

lemma strip_replicate:
  "\<not> isspace c \<Longrightarrow> strip (replicate k c) = replicate k c"
  by (simp add: strip_def)

lemma strip_space_replicate:
  "\<not> isspace c \<Longrightarrow> strip (CHR '' '' # replicate k c) = replicate k c"
  by (simp add: strip_def isspace_def)

lemma not_isspace_a: "\<not> isspace (CHR ''a'')"
  by (simp add: isspace_def)

lemma isspace_space: "isspace (CHR '' '')"
  by (simp add: isspace_def)

section \<open>The form view\<close>

lemma form_example_POST:
  "http_method request = ''POST'' \<Longrightarrow>
   form_example ve request =
     (if fst (is_valid ve (ContactForm (Some (POST request)))) then
        (case map_of (snd (clean_fields ve (POST request) ContactForm_fields ([], []))) ''name'' of
           None \<Rightarrow> Inl (KeyError ''name'')
         | Some v \<Rightarrow> Inr (render request ''form_success.html'' [(''name'', pyval_of v)]))
      else Inr (render request ''form.html''
             [(''form'', PForm (snd (is_valid ve (ContactForm (Some (POST request))))))]))"
  by (simp add: form_example_def is_valid_ContactForm)

lemma valid_name:
  assumes "fst (is_valid ve (ContactForm (Some d)))"
  shows "\<exists>n. QueryDict_get d ''name'' = Some n \<and>
             clean_bound_field ve d ''name'' (CharField (Some 100) True TextInput)
               = Inr (FStr (strip n))"
proof -
  from assms obtain v where
    "clean_bound_field ve d ''name'' (CharField (Some 100) True TextInput) = Inr v"
    by (auto simp: valid_iff_no_field_error ContactForm_fields_def)
  then show ?thesis
    by (auto simp: name_field split: option.splits if_splits)
qed

lemma form_example_POST_valid:
  assumes "http_method request = ''POST''"
    and "fst (is_valid ve (ContactForm (Some (POST request))))"
  shows "\<exists>n. QueryDict_get (POST request) ''name'' = Some n \<and>
             form_example ve request =
               Inr (render request ''form_success.html'' [(''name'', PStr (strip n))])"
proof -
  from valid_name [OF assms(2)] obtain n where
    n: "QueryDict_get (POST request) ''name'' = Some n"
    and c: "clean_bound_field ve (POST request) ''name'' (CharField (Some 100) True TextInput)
              = Inr (FStr (strip n))"
    by blast
  have "form_example ve request =
          Inr (render request ''form_success.html'' [(''name'', PStr (strip n))])"
    by (simp add: form_example_POST [OF assms(1)] assms(2) cleaned_name_ContactForm [OF c])
  with n show ?thesis by blast
qed

lemma form_example_POST_invalid:
  assumes "http_method request = ''POST''"
    and "\<not> fst (is_valid ve (ContactForm (Some (POST request))))"
  shows "form_example ve request =
           Inr (render request ''form.html''
             [(''form'', PForm ((ContactForm (Some (POST request)))
                \<lparr>errors_cache := Some (fst (errors ve (ContactForm (Some (POST request))))),
                 cleaned_data :=
                   Some (snd (clean_fields ve (POST request) ContactForm_fields ([], [])))\<rparr>))])"
  using assms(2)
  by (simp add: form_example_POST [OF assms(1)]) (simp add: is_valid_ContactForm errors_ContactForm)

section \<open>The claims about the form view\<close>

text \<open>
  C1, as amended. For every \<open>POST\<close> request whose form validates (\<open>is_valid()\<close> is
  true), \<open>form_example\<close> renders \<open>form_success.html\<close> with a context of exactly one key,
  \<open>name\<close>, bound to the validated name, which is the submitted name stripped. The form
  validates whenever, after surrounding whitespace is stripped, the name has 1 to 100
  characters, the e-mail is not empty, has at most 320 characters and passes the address
  check, the message is not empty, and none of them holds a NUL character, whatever is
  submitted as \<open>subscribe\<close>. In particular, for name \<open>Ada\<close>, e-mail \<open>ada@example.com\<close>,
  message \<open>hi\<close> and no \<open>subscribe\<close>, with an address check that accepts
  \<open>ada@example.com\<close>, the context is exactly \<open>{name: Ada}\<close>.
\<close>

theorem form_example_valid_post:
  "(http_method request = ''POST'' \<and>
    fst (is_valid validate_email (ContactForm (Some (POST request)))) \<longrightarrow>
      (\<exists>n. QueryDict_get (POST request) ''name'' = Some n \<and>
           form_example validate_email request =
             Inr \<lparr>template_name = ''form_success.html'',
                  context_data = [(''name'', PStr (strip n))]\<rparr>)) \<and>
   (http_method request = ''POST'' \<and>
    QueryDict_get (POST request) ''name'' = Some n \<and> strip n \<noteq> [] \<and>
    length (strip n) \<le> 100 \<and> CHR 0x00 \<notin> set (strip n) \<and>
    QueryDict_get (POST request) ''email'' = Some e \<and> strip e \<noteq> [] \<and>
    validate_email (strip e) \<and> length (strip e) \<le> 320 \<and> CHR 0x00 \<notin> set (strip e) \<and>
    QueryDict_get (POST request) ''message'' = Some m \<and> strip m \<noteq> [] \<and>
    CHR 0x00 \<notin> set (strip m) \<longrightarrow>
      form_example validate_email request =
        Inr \<lparr>template_name = ''form_success.html'',
             context_data = [(''name'', PStr (strip n))]\<rparr>) \<and>
   (validate_email ''ada@example.com'' \<longrightarrow>
      form_example validate_email
        \<lparr>http_method = ''POST'',
         POST = [(''name'', ''Ada''), (''email'', ''ada@example.com''), (''message'', ''hi'')]\<rparr> =
        Inr \<lparr>template_name = ''form_success.html'',
             context_data = [(''name'', PStr ''Ada'')]\<rparr>)"
proof (intro conjI impI)
  assume "http_method request = ''POST'' \<and>
    fst (is_valid validate_email (ContactForm (Some (POST request))))"
  then show "\<exists>n. QueryDict_get (POST request) ''name'' = Some n \<and>
           form_example validate_email request =
             Inr \<lparr>template_name = ''form_success.html'',
                  context_data = [(''name'', PStr (strip n))]\<rparr>"
    using form_example_POST_valid [of request validate_email]
    by (simp add: render_def)
next
  assume a: "http_method request = ''POST'' \<and>
    QueryDict_get (POST request) ''name'' = Some n \<and> strip n \<noteq> [] \<and>
    length (strip n) \<le> 100 \<and> CHR 0x00 \<notin> set (strip n) \<and>
    QueryDict_get (POST request) ''email'' = Some e \<and> strip e \<noteq> [] \<and>
    validate_email (strip e) \<and> length (strip e) \<le> 320 \<and> CHR 0x00 \<notin> set (strip e) \<and>
    QueryDict_get (POST request) ''message'' = Some m \<and> strip m \<noteq> [] \<and>
    CHR 0x00 \<notin> set (strip m)"
  then have v: "fst (is_valid validate_email (ContactForm (Some (POST request))))"
    by (simp add: is_valid_ContactForm_iff)
  from a have p: "http_method request = ''POST''"
    by simp
  from form_example_POST_valid [OF p v] a
  show "form_example validate_email request =
        Inr \<lparr>template_name = ''form_success.html'',
             context_data = [(''name'', PStr (strip n))]\<rparr>"
    by (auto simp: render_def)
next
  let ?r = "\<lparr>http_method = ''POST'',
         POST = [(''name'', ''Ada''), (''email'', ''ada@example.com''), (''message'', ''hi'')]\<rparr>"
  assume "validate_email ''ada@example.com''"
  then have v: "fst (is_valid validate_email (ContactForm (Some (POST ?r))))"
    by (simp add: is_valid_ContactForm_iff QueryDict_get_def strip_plain)
  have m: "http_method ?r = ''POST''"
    by simp
  from form_example_POST_valid [OF m v]
  show "form_example validate_email ?r =
        Inr \<lparr>template_name = ''form_success.html'',
             context_data = [(''name'', PStr ''Ada'')]\<rparr>"
    by (simp add: QueryDict_get_def strip_plain render_def)
qed

theorem form_example_valid_post_witness:
  "http_method \<lparr>http_method = ''POST'',
         POST = [(''name'', ''Ada''), (''email'', ''ada@example.com''), (''message'', ''hi'')]\<rparr>
     = ''POST'' \<and>
   fst (is_valid at_sign_check (ContactForm (Some
     [(''name'', ''Ada''), (''email'', ''ada@example.com''), (''message'', ''hi'')]))) \<and>
   at_sign_check ''ada@example.com'' \<and>
   form_example at_sign_check
        \<lparr>http_method = ''POST'',
         POST = [(''name'', ''Ada''), (''email'', ''ada@example.com''), (''message'', ''hi'')]\<rparr> =
        Inr \<lparr>template_name = ''form_success.html'',
             context_data = [(''name'', PStr ''Ada'')]\<rparr>"
proof -
  have a: "at_sign_check ''ada@example.com''"
    by (simp add: at_sign_check_def)
  then have v: "fst (is_valid at_sign_check (ContactForm (Some
     [(''name'', ''Ada''), (''email'', ''ada@example.com''), (''message'', ''hi'')])))"
    by (simp add: is_valid_ContactForm_iff QueryDict_get_def strip_plain)
  have c: "form_example at_sign_check
        \<lparr>http_method = ''POST'',
         POST = [(''name'', ''Ada''), (''email'', ''ada@example.com''), (''message'', ''hi'')]\<rparr> =
        Inr \<lparr>template_name = ''form_success.html'',
             context_data = [(''name'', PStr ''Ada'')]\<rparr>"
    using form_example_valid_post [of _ at_sign_check, THEN conjunct2, THEN conjunct2] a
    by (rule mp)
  from a v c show ?thesis
    by simp
qed

text \<open>
  C1 as stated takes a name that is not empty and has at most 100 characters to
  validate. A name of one space is such a name, and with e-mail \<open>ada@example.com\<close>,
  message \<open>hi\<close> and no \<open>subscribe\<close> the form does not validate: the name is stripped to
  the empty string, and \<open>form_example\<close> renders \<open>form.html\<close> with a \<open>required\<close> error
  for \<open>name\<close>.
\<close>

theorem blank_name_counterexample:
  "'' '' \<noteq> [] \<and> length '' '' \<le> 100 \<and> at_sign_check ''ada@example.com'' \<and> ''hi'' \<noteq> [] \<and>
   QueryDict_get [(''name'', '' ''), (''email'', ''ada@example.com''), (''message'', ''hi'')]
     ''subscribe'' = None \<and>
   \<not> fst (is_valid at_sign_check (ContactForm (Some
      [(''name'', '' ''), (''email'', ''ada@example.com''), (''message'', ''hi'')]))) \<and>
   form_example at_sign_check
     \<lparr>http_method = ''POST'',
      POST = [(''name'', '' ''), (''email'', ''ada@example.com''), (''message'', ''hi'')]\<rparr> =
     Inr \<lparr>template_name = ''form.html'',
          context_data =
            [(''form'', PForm
               \<lparr>data = [(''name'', '' ''), (''email'', ''ada@example.com''), (''message'', ''hi'')],
                is_bound = True,
                form_fields = ContactForm_fields,
                errors_cache = Some [(''name'', [Required])],
                cleaned_data = Some [(''email'', FStr ''ada@example.com''),
                                     (''message'', FStr ''hi''),
                                     (''subscribe'', FBool False)]\<rparr>)]\<rparr>"
proof -
  let ?d = "[(''name'', '' ''), (''email'', ''ada@example.com''), (''message'', ''hi'')]"
  let ?r = "\<lparr>http_method = ''POST'', POST = ?d\<rparr>"
  have sb: "strip '' '' = []"
    by (simp add: strip_def isspace_def)
  have a: "at_sign_check ''ada@example.com''"
    by (simp add: at_sign_check_def)
  have fs:
    "clean_bound_field at_sign_check ?d ''name'' (CharField (Some 100) True TextInput)
       = Inl [Required]"
    "clean_bound_field at_sign_check ?d ''email'' (EmailField True)
       = Inr (FStr ''ada@example.com'')"
    "clean_bound_field at_sign_check ?d ''message'' (CharField None True Textarea)
       = Inr (FStr ''hi'')"
    "clean_bound_field at_sign_check ?d ''subscribe'' (BooleanField False) = Inr (FBool False)"
    by (simp_all add: name_field email_field message_field subscribe_field_missing
        QueryDict_get_def sb strip_plain a)
  have cf: "clean_fields at_sign_check ?d ContactForm_fields ([], []) =
      ([(''name'', [Required])],
       [(''email'', FStr ''ada@example.com''), (''message'', FStr ''hi''),
        (''subscribe'', FBool False)])"
    unfolding clean_fields_ContactForm by (simp add: ContactForm_fields_def fs)
  have e: "fst (errors at_sign_check (ContactForm (Some ?d))) = [(''name'', [Required])]"
    by (simp add: errors_ContactForm cf)
  have v: "\<not> fst (is_valid at_sign_check (ContactForm (Some (POST ?r))))"
    by (simp add: is_valid_ContactForm cf)
  have "form_example at_sign_check ?r =
     Inr \<lparr>template_name = ''form.html'',
          context_data =
            [(''form'', PForm
               \<lparr>data = ?d,
                is_bound = True,
                form_fields = ContactForm_fields,
                errors_cache = Some [(''name'', [Required])],
                cleaned_data = Some [(''email'', FStr ''ada@example.com''),
                                     (''message'', FStr ''hi''),
                                     (''subscribe'', FBool False)]\<rparr>)]\<rparr>"
    using form_example_POST_invalid [OF _ v]
    by (simp add: e cf render_def) (simp add: ContactForm_def)
  with v a show ?thesis
    by (simp add: QueryDict_get_def)
qed

text \<open>
  C3. For every request whose method is not \<open>POST\<close> (\<open>GET\<close> included), \<open>form_example\<close>
  builds a fresh unbound \<open>ContactForm\<close> and renders \<open>form.html\<close> with it: the form is
  not bound, holds no data, has not been cleaned, and its \<open>errors\<close> are empty.
\<close>

theorem form_example_not_post:
  "http_method request \<noteq> ''POST'' \<Longrightarrow>
   form_example ve request =
     Inr \<lparr>template_name = ''form.html'',
          context_data = [(''form'', PForm (ContactForm None))]\<rparr> \<and>
   \<not> is_bound (ContactForm None) \<and>
   data (ContactForm None) = [] \<and>
   errors_cache (ContactForm None) = None \<and>
   cleaned_data (ContactForm None) = None \<and>
   fst (errors ve (ContactForm None)) = []"
  by (simp add: form_example_def render_def ContactForm_def errors_def full_clean_def)

theorem form_example_not_post_witness:
  "http_method \<lparr>http_method = ''GET'', POST = []\<rparr> \<noteq> ''POST'' \<and>
   form_example at_sign_check \<lparr>http_method = ''GET'', POST = []\<rparr> =
     Inr \<lparr>template_name = ''form.html'',
          context_data = [(''form'', PForm (ContactForm None))]\<rparr> \<and>
   fst (errors at_sign_check (ContactForm None)) = []"
proof -
  have h: "http_method \<lparr>http_method = ''GET'', POST = []\<rparr> \<noteq> ''POST''"
    by simp
  from form_example_not_post [OF h, of at_sign_check] h show ?thesis
    by blast
qed

text \<open>
  C2, as amended. For every \<open>POST\<close> request whose form does not validate,
  \<open>form_example\<close> raises nothing: it returns the rendering of \<open>form.html\<close> with the same
  bound form, now carrying the outcome of its cleaning. The form's errors are not empty
  and hold, under each field's name, exactly the errors that field's cleaning raised; so
  when the name, the e-mail and the message all fail, as for name \<open>""\<close>, e-mail
  \<open>not-an-email\<close> and message \<open>""\<close> (with an address check that rejects
  \<open>not-an-email\<close>), the errors contain field errors for \<open>name\<close>, \<open>email\<close> and
  \<open>message\<close>.
\<close>

theorem form_example_invalid_post:
  "(http_method request = ''POST'' \<and>
    \<not> fst (is_valid ve (ContactForm (Some (POST request)))) \<longrightarrow>
      (\<exists>errs cd.
         form_example ve request =
           Inr \<lparr>template_name = ''form.html'',
                context_data =
                  [(''form'', PForm ((ContactForm (Some (POST request)))
                      \<lparr>errors_cache := Some errs, cleaned_data := Some cd\<rparr>))]\<rparr> \<and>
         errs = fst (errors ve (ContactForm (Some (POST request)))) \<and>
         errs \<noteq> [] \<and>
         (\<forall>(n, f) \<in> set ContactForm_fields.
            map_of errs n =
              (case clean_bound_field ve (POST request) n f of
                 Inl es \<Rightarrow> Some es | Inr v \<Rightarrow> None)) \<and>
         (isl (clean_bound_field ve (POST request) ''name'' (CharField (Some 100) True TextInput)) \<and>
          isl (clean_bound_field ve (POST request) ''email'' (EmailField True)) \<and>
          isl (clean_bound_field ve (POST request) ''message'' (CharField None True Textarea)) \<longrightarrow>
            map_of errs ''name'' \<noteq> None \<and> map_of errs ''email'' \<noteq> None \<and>
            map_of errs ''message'' \<noteq> None))) \<and>
   (\<not> ve ''not-an-email'' \<longrightarrow>
      form_example ve
        \<lparr>http_method = ''POST'',
         POST = [(''name'', []), (''email'', ''not-an-email''), (''message'', [])]\<rparr> =
        Inr \<lparr>template_name = ''form.html'',
             context_data =
               [(''form'', PForm
                  \<lparr>data = [(''name'', []), (''email'', ''not-an-email''), (''message'', [])],
                   is_bound = True,
                   form_fields = ContactForm_fields,
                   errors_cache = Some [(''name'', [Required]), (''email'', [Invalid]),
                                        (''message'', [Required])],
                   cleaned_data = Some [(''subscribe'', FBool False)]\<rparr>)]\<rparr>)"
proof (intro conjI impI)
  assume a: "http_method request = ''POST'' \<and>
    \<not> fst (is_valid ve (ContactForm (Some (POST request))))"
  let ?errs = "fst (errors ve (ContactForm (Some (POST request))))"
  let ?cd = "snd (clean_fields ve (POST request) ContactForm_fields ([], []))"
  have r: "form_example ve request =
           Inr \<lparr>template_name = ''form.html'',
                context_data =
                  [(''form'', PForm ((ContactForm (Some (POST request)))
                      \<lparr>errors_cache := Some ?errs, cleaned_data := Some ?cd\<rparr>))]\<rparr>"
    using a form_example_POST_invalid [of request ve] by (simp add: render_def)
  have ne: "?errs \<noteq> []"
    using a by (simp add: is_valid_ContactForm errors_ContactForm)
  have f: "\<forall>(n, f) \<in> set ContactForm_fields.
            map_of ?errs n =
              (case clean_bound_field ve (POST request) n f of
                 Inl es \<Rightarrow> Some es | Inr v \<Rightarrow> None)"
    using field_errors_ContactForm [of _ _ ve "POST request"] by blast
  have t: "isl (clean_bound_field ve (POST request) ''name'' (CharField (Some 100) True TextInput)) \<and>
          isl (clean_bound_field ve (POST request) ''email'' (EmailField True)) \<and>
          isl (clean_bound_field ve (POST request) ''message'' (CharField None True Textarea)) \<longrightarrow>
            map_of ?errs ''name'' \<noteq> None \<and> map_of ?errs ''email'' \<noteq> None \<and>
            map_of ?errs ''message'' \<noteq> None"
    by (auto simp: field_errors_ContactForm [OF name_in_fields]
        field_errors_ContactForm [OF email_in_fields]
        field_errors_ContactForm [OF message_in_fields] isl_def)
  from r ne f t
  show "\<exists>errs cd.
         form_example ve request =
           Inr \<lparr>template_name = ''form.html'',
                context_data =
                  [(''form'', PForm ((ContactForm (Some (POST request)))
                      \<lparr>errors_cache := Some errs, cleaned_data := Some cd\<rparr>))]\<rparr> \<and>
         errs = fst (errors ve (ContactForm (Some (POST request)))) \<and>
         errs \<noteq> [] \<and>
         (\<forall>(n, f) \<in> set ContactForm_fields.
            map_of errs n =
              (case clean_bound_field ve (POST request) n f of
                 Inl es \<Rightarrow> Some es | Inr v \<Rightarrow> None)) \<and>
         (isl (clean_bound_field ve (POST request) ''name'' (CharField (Some 100) True TextInput)) \<and>
          isl (clean_bound_field ve (POST request) ''email'' (EmailField True)) \<and>
          isl (clean_bound_field ve (POST request) ''message'' (CharField None True Textarea)) \<longrightarrow>
            map_of errs ''name'' \<noteq> None \<and> map_of errs ''email'' \<noteq> None \<and>
            map_of errs ''message'' \<noteq> None)"
    by blast
next
  let ?d = "[(''name'', []), (''email'', ''not-an-email''), (''message'', [])]"
  let ?r = "\<lparr>http_method = ''POST'', POST = ?d\<rparr>"
  assume n: "\<not> ve ''not-an-email''"
  have fs: "clean_bound_field ve ?d ''name'' (CharField (Some 100) True TextInput) = Inl [Required]"
    "clean_bound_field ve ?d ''email'' (EmailField True) = Inl [Invalid]"
    "clean_bound_field ve ?d ''message'' (CharField None True Textarea) = Inl [Required]"
    "clean_bound_field ve ?d ''subscribe'' (BooleanField False) = Inr (FBool False)"
    using n
    by (simp_all add: name_field email_field message_field subscribe_field_missing
        QueryDict_get_def strip_Nil strip_plain MaxLengthValidator_def
        ProhibitNullCharactersValidator_def)
  have cf: "clean_fields ve ?d ContactForm_fields ([], []) =
      ([(''name'', [Required]), (''email'', [Invalid]), (''message'', [Required])],
       [(''subscribe'', FBool False)])"
    unfolding clean_fields_ContactForm by (simp add: ContactForm_fields_def fs)
  have e: "fst (errors ve (ContactForm (Some ?d))) =
      [(''name'', [Required]), (''email'', [Invalid]), (''message'', [Required])]"
    by (simp add: errors_ContactForm cf)
  have "\<not> fst (is_valid ve (ContactForm (Some (POST ?r))))"
    by (simp add: is_valid_ContactForm cf)
  from form_example_POST_invalid [OF _ this]
  show "form_example ve ?r =
        Inr \<lparr>template_name = ''form.html'',
             context_data =
               [(''form'', PForm
                  \<lparr>data = ?d,
                   is_bound = True,
                   form_fields = ContactForm_fields,
                   errors_cache = Some [(''name'', [Required]), (''email'', [Invalid]),
                                        (''message'', [Required])],
                   cleaned_data = Some [(''subscribe'', FBool False)]\<rparr>)]\<rparr>"
    by (simp add: e cf render_def) (simp add: ContactForm_def)
qed

theorem form_example_invalid_post_witness:
  "http_method \<lparr>http_method = ''POST'',
      POST = [(''name'', []), (''email'', ''not-an-email''), (''message'', [])]\<rparr> = ''POST'' \<and>
   \<not> fst (is_valid at_sign_check (ContactForm (Some
      [(''name'', []), (''email'', ''not-an-email''), (''message'', [])]))) \<and>
   \<not> at_sign_check ''not-an-email'' \<and>
   form_example at_sign_check
        \<lparr>http_method = ''POST'',
         POST = [(''name'', []), (''email'', ''not-an-email''), (''message'', [])]\<rparr> =
        Inr \<lparr>template_name = ''form.html'',
             context_data =
               [(''form'', PForm
                  \<lparr>data = [(''name'', []), (''email'', ''not-an-email''), (''message'', [])],
                   is_bound = True,
                   form_fields = ContactForm_fields,
                   errors_cache = Some [(''name'', [Required]), (''email'', [Invalid]),
                                        (''message'', [Required])],
                   cleaned_data = Some [(''subscribe'', FBool False)]\<rparr>)]\<rparr>"
proof -
  have h: "\<not> at_sign_check ''not-an-email''"
    by (simp add: at_sign_check_def)
  have v: "\<not> fst (is_valid at_sign_check (ContactForm (Some
      [(''name'', []), (''email'', ''not-an-email''), (''message'', [])])))"
    by (simp add: is_valid_ContactForm_iff QueryDict_get_def strip_Nil)
  have m: "http_method \<lparr>http_method = ''POST'',
      POST = [(''name'', []), (''email'', ''not-an-email''), (''message'', [])]\<rparr> = ''POST''"
    by simp
  have c: "form_example at_sign_check
        \<lparr>http_method = ''POST'',
         POST = [(''name'', []), (''email'', ''not-an-email''), (''message'', [])]\<rparr> =
        Inr \<lparr>template_name = ''form.html'',
             context_data =
               [(''form'', PForm
                  \<lparr>data = [(''name'', []), (''email'', ''not-an-email''), (''message'', [])],
                   is_bound = True,
                   form_fields = ContactForm_fields,
                   errors_cache = Some [(''name'', [Required]), (''email'', [Invalid]),
                                        (''message'', [Required])],
                   cleaned_data = Some [(''subscribe'', FBool False)]\<rparr>)]\<rparr>"
    using form_example_invalid_post [of _ at_sign_check, THEN conjunct2] h by (rule mp)
  from m v h c show ?thesis
    by (intro conjI)
qed

text \<open>
  C2 as stated promises errors for all three fields on every failing submission. A
  submission that fails on the message alone (name \<open>Ada\<close>, e-mail \<open>ada@example.com\<close>,
  empty message) is rendered again with an error for \<open>message\<close> only.
\<close>

theorem partial_failure_counterexample:
  "http_method \<lparr>http_method = ''POST'',
      POST = [(''name'', ''Ada''), (''email'', ''ada@example.com''), (''message'', [])]\<rparr>
     = ''POST'' \<and>
   \<not> fst (is_valid at_sign_check (ContactForm (Some
      [(''name'', ''Ada''), (''email'', ''ada@example.com''), (''message'', [])]))) \<and>
   form_example at_sign_check
     \<lparr>http_method = ''POST'',
      POST = [(''name'', ''Ada''), (''email'', ''ada@example.com''), (''message'', [])]\<rparr> =
     Inr \<lparr>template_name = ''form.html'',
          context_data =
            [(''form'', PForm
               \<lparr>data = [(''name'', ''Ada''), (''email'', ''ada@example.com''), (''message'', [])],
                is_bound = True,
                form_fields = ContactForm_fields,
                errors_cache = Some [(''message'', [Required])],
                cleaned_data = Some [(''name'', FStr ''Ada''),
                                     (''email'', FStr ''ada@example.com''),
                                     (''subscribe'', FBool False)]\<rparr>)]\<rparr> \<and>
   map_of [(''message'', [Required])] ''name'' = None \<and>
   map_of [(''message'', [Required])] ''email'' = None"
proof -
  let ?d = "[(''name'', ''Ada''), (''email'', ''ada@example.com''), (''message'', [])]"
  let ?r = "\<lparr>http_method = ''POST'', POST = ?d\<rparr>"
  have fs:
    "clean_bound_field at_sign_check ?d ''name'' (CharField (Some 100) True TextInput)
       = Inr (FStr ''Ada'')"
    "clean_bound_field at_sign_check ?d ''email'' (EmailField True)
       = Inr (FStr ''ada@example.com'')"
    "clean_bound_field at_sign_check ?d ''message'' (CharField None True Textarea)
       = Inl [Required]"
    "clean_bound_field at_sign_check ?d ''subscribe'' (BooleanField False) = Inr (FBool False)"
    by (simp_all add: name_field email_field message_field subscribe_field_missing
        QueryDict_get_def strip_Nil strip_plain at_sign_check_def)
  have cf: "clean_fields at_sign_check ?d ContactForm_fields ([], []) =
      ([(''message'', [Required])],
       [(''name'', FStr ''Ada''), (''email'', FStr ''ada@example.com''),
        (''subscribe'', FBool False)])"
    unfolding clean_fields_ContactForm by (simp add: ContactForm_fields_def fs)
  have e: "fst (errors at_sign_check (ContactForm (Some ?d))) = [(''message'', [Required])]"
    by (simp add: errors_ContactForm cf)
  have v: "\<not> fst (is_valid at_sign_check (ContactForm (Some (POST ?r))))"
    by (simp add: is_valid_ContactForm cf)
  have "form_example at_sign_check ?r =
     Inr \<lparr>template_name = ''form.html'',
          context_data =
            [(''form'', PForm
               \<lparr>data = ?d,
                is_bound = True,
                form_fields = ContactForm_fields,
                errors_cache = Some [(''message'', [Required])],
                cleaned_data = Some [(''name'', FStr ''Ada''),
                                     (''email'', FStr ''ada@example.com''),
                                     (''subscribe'', FBool False)]\<rparr>)]\<rparr>"
    using form_example_POST_invalid [OF _ v]
    by (simp add: e cf render_def) (simp add: ContactForm_def)
  with v show ?thesis
    by simp
qed

text \<open>
  C4, as amended. The checks on the name apply to the submitted name with surrounding
  whitespace stripped: validation accepts a name whose stripped form has between 1 and
  100 characters and no NUL character, and rejects one whose stripped form has 101 or
  more characters. It rejects a missing name, a missing e-mail, an e-mail whose stripped
  form the address check rejects, and a missing message. The \<open>subscribe\<close> field never
  has an error, submitted or not: the form is valid exactly when name, e-mail and message
  have none.
\<close>

theorem ContactForm_validation:
  "(QueryDict_get d ''name'' = Some n \<and> strip n \<noteq> [] \<and> length (strip n) \<le> 100 \<and>
      CHR 0x00 \<notin> set (strip n) \<longrightarrow>
      map_of (fst (errors ve (ContactForm (Some d)))) ''name'' = None) \<and>
   (QueryDict_get d ''name'' = Some n \<and> 100 < length (strip n) \<longrightarrow>
      map_of (fst (errors ve (ContactForm (Some d)))) ''name'' \<noteq> None \<and>
      \<not> fst (is_valid ve (ContactForm (Some d)))) \<and>
   (QueryDict_get d ''name'' = None \<longrightarrow>
      map_of (fst (errors ve (ContactForm (Some d)))) ''name'' = Some [Required] \<and>
      \<not> fst (is_valid ve (ContactForm (Some d)))) \<and>
   (QueryDict_get d ''email'' = None \<longrightarrow>
      map_of (fst (errors ve (ContactForm (Some d)))) ''email'' = Some [Required] \<and>
      \<not> fst (is_valid ve (ContactForm (Some d)))) \<and>
   (QueryDict_get d ''email'' = Some e \<and> \<not> ve (strip e) \<longrightarrow>
      map_of (fst (errors ve (ContactForm (Some d)))) ''email'' \<noteq> None \<and>
      \<not> fst (is_valid ve (ContactForm (Some d)))) \<and>
   (QueryDict_get d ''message'' = None \<longrightarrow>
      map_of (fst (errors ve (ContactForm (Some d)))) ''message'' = Some [Required] \<and>
      \<not> fst (is_valid ve (ContactForm (Some d)))) \<and>
   map_of (fst (errors ve (ContactForm (Some d)))) ''subscribe'' = None \<and>
   fst (is_valid ve (ContactForm (Some d))) =
     (map_of (fst (errors ve (ContactForm (Some d)))) ''name'' = None \<and>
      map_of (fst (errors ve (ContactForm (Some d)))) ''email'' = None \<and>
      map_of (fst (errors ve (ContactForm (Some d)))) ''message'' = None)"
proof -
  have v: "fst (is_valid ve (ContactForm (Some d))) =
     (map_of (fst (errors ve (ContactForm (Some d)))) ''name'' = None \<and>
      map_of (fst (errors ve (ContactForm (Some d)))) ''email'' = None \<and>
      map_of (fst (errors ve (ContactForm (Some d)))) ''message'' = None)"
    by (rule valid_iff_three_fields)
  have a: "QueryDict_get d ''name'' = Some n \<and> strip n \<noteq> [] \<and> length (strip n) \<le> 100 \<and>
      CHR 0x00 \<notin> set (strip n) \<longrightarrow>
      map_of (fst (errors ve (ContactForm (Some d)))) ''name'' = None"
    by (simp add: name_errors)
  have b: "QueryDict_get d ''name'' = Some n \<and> 100 < length (strip n) \<longrightarrow>
      map_of (fst (errors ve (ContactForm (Some d)))) ''name'' \<noteq> None"
    by (auto simp: name_errors)
  have c: "QueryDict_get d ''name'' = None \<longrightarrow>
      map_of (fst (errors ve (ContactForm (Some d)))) ''name'' = Some [Required]"
    by (simp add: name_errors)
  have e1: "QueryDict_get d ''email'' = None \<longrightarrow>
      map_of (fst (errors ve (ContactForm (Some d)))) ''email'' = Some [Required]"
    by (simp add: email_errors)
  have e2: "QueryDict_get d ''email'' = Some e \<and> \<not> ve (strip e) \<longrightarrow>
      map_of (fst (errors ve (ContactForm (Some d)))) ''email'' \<noteq> None"
    by (simp add: email_errors)
  have m: "QueryDict_get d ''message'' = None \<longrightarrow>
      map_of (fst (errors ve (ContactForm (Some d)))) ''message'' = Some [Required]"
    by (simp add: message_errors)
  have s: "map_of (fst (errors ve (ContactForm (Some d)))) ''subscribe'' = None"
    by (rule subscribe_errors)
  from v a b c e1 e2 m s show ?thesis
    by (metis option.distinct(1))
qed

theorem ContactForm_validation_witness:
  "(QueryDict_get [(''name'', replicate 100 (CHR ''a''))] ''name'' = Some (replicate 100 (CHR ''a'')) \<and>
    strip (replicate 100 (CHR ''a'')) \<noteq> [] \<and>
    length (strip (replicate 100 (CHR ''a''))) \<le> 100 \<and>
    CHR 0x00 \<notin> set (strip (replicate 100 (CHR ''a''))) \<and>
    map_of (fst (errors at_sign_check (ContactForm (Some [(''name'', replicate 100 (CHR ''a''))]))))
      ''name'' = None) \<and>
   (QueryDict_get [(''name'', replicate 101 (CHR ''a''))] ''name'' = Some (replicate 101 (CHR ''a'')) \<and>
    100 < length (strip (replicate 101 (CHR ''a''))) \<and>
    \<not> fst (is_valid at_sign_check (ContactForm (Some [(''name'', replicate 101 (CHR ''a''))])))) \<and>
   (QueryDict_get [(''email'', ''not-an-email'')] ''name'' = None \<and>
    QueryDict_get [(''email'', ''not-an-email'')] ''message'' = None \<and>
    QueryDict_get [(''email'', ''not-an-email'')] ''email'' = Some ''not-an-email'' \<and>
    \<not> at_sign_check (strip ''not-an-email'') \<and>
    map_of (fst (errors at_sign_check (ContactForm (Some [(''email'', ''not-an-email'')]))))
      ''name'' = Some [Required] \<and>
    map_of (fst (errors at_sign_check (ContactForm (Some [(''email'', ''not-an-email'')]))))
      ''email'' \<noteq> None \<and>
    map_of (fst (errors at_sign_check (ContactForm (Some [(''email'', ''not-an-email'')]))))
      ''message'' = Some [Required] \<and>
    \<not> fst (is_valid at_sign_check (ContactForm (Some [(''email'', ''not-an-email'')])))) \<and>
   (QueryDict_get [] ''email'' = None \<and>
    map_of (fst (errors at_sign_check (ContactForm (Some [])))) ''email'' = Some [Required])"
proof -
  have s: "strip (replicate 100 (CHR ''a'')) = replicate 100 (CHR ''a'')"
    "strip (replicate 101 (CHR ''a'')) = replicate 101 (CHR ''a'')"
    by (simp_all add: strip_replicate [OF not_isspace_a])
  have h1: "QueryDict_get [(''name'', replicate 100 (CHR ''a''))] ''name''
      = Some (replicate 100 (CHR ''a'')) \<and>
    strip (replicate 100 (CHR ''a'')) \<noteq> [] \<and>
    length (strip (replicate 100 (CHR ''a''))) \<le> 100 \<and>
    CHR 0x00 \<notin> set (strip (replicate 100 (CHR ''a'')))"
    by (simp add: s QueryDict_get_def)
  have h2: "QueryDict_get [(''name'', replicate 101 (CHR ''a''))] ''name''
      = Some (replicate 101 (CHR ''a'')) \<and>
    100 < length (strip (replicate 101 (CHR ''a'')))"
    by (simp add: s QueryDict_get_def)
  have h3: "QueryDict_get [(''email'', ''not-an-email'')] ''name'' = None \<and>
    QueryDict_get [(''email'', ''not-an-email'')] ''message'' = None \<and>
    QueryDict_get [(''email'', ''not-an-email'')] ''email'' = Some ''not-an-email'' \<and>
    \<not> at_sign_check (strip ''not-an-email'')"
    by (simp add: QueryDict_get_def strip_plain at_sign_check_def)
  have h4: "QueryDict_get [] ''email'' = None"
    by (simp add: QueryDict_get_def)
  note t1 = ContactForm_validation [of "[(''name'', replicate 100 (CHR ''a''))]"
      "replicate 100 (CHR ''a'')" at_sign_check "[]"]
  note t2 = ContactForm_validation [of "[(''name'', replicate 101 (CHR ''a''))]"
      "replicate 101 (CHR ''a'')" at_sign_check "[]"]
  note t3 = ContactForm_validation [of "[(''email'', ''not-an-email'')]" "[]" at_sign_check
      "''not-an-email''"]
  note t4 = ContactForm_validation [of "[]" "[]" at_sign_check "[]"]
  have c1: "map_of (fst (errors at_sign_check
      (ContactForm (Some [(''name'', replicate 100 (CHR ''a''))])))) ''name'' = None"
    using t1 [THEN conjunct1] h1 by (rule mp)
  have c2: "\<not> fst (is_valid at_sign_check
      (ContactForm (Some [(''name'', replicate 101 (CHR ''a''))])))"
    using t2 [THEN conjunct2, THEN conjunct1] h2 by (rule mp [THEN conjunct2])
  have c3: "map_of (fst (errors at_sign_check (ContactForm (Some [(''email'', ''not-an-email'')]))))
      ''name'' = Some [Required]"
    using t3 [THEN conjunct2, THEN conjunct2, THEN conjunct1] h3 [THEN conjunct1]
    by (rule mp [THEN conjunct1])
  have c4: "map_of (fst (errors at_sign_check (ContactForm (Some [(''email'', ''not-an-email'')]))))
      ''email'' \<noteq> None \<and>
    \<not> fst (is_valid at_sign_check (ContactForm (Some [(''email'', ''not-an-email'')])))"
    using t3 [THEN conjunct2, THEN conjunct2, THEN conjunct2, THEN conjunct2, THEN conjunct1]
      h3 [THEN conjunct2, THEN conjunct2]
    by (rule mp)
  have c5: "map_of (fst (errors at_sign_check (ContactForm (Some [(''email'', ''not-an-email'')]))))
      ''message'' = Some [Required]"
    using t3 [THEN conjunct2, THEN conjunct2, THEN conjunct2, THEN conjunct2, THEN conjunct2,
        THEN conjunct1]
      h3 [THEN conjunct2, THEN conjunct1]
    by (rule mp [THEN conjunct1])
  have c6: "map_of (fst (errors at_sign_check (ContactForm (Some [])))) ''email''
      = Some [Required]"
    using t4 [THEN conjunct2, THEN conjunct2, THEN conjunct2, THEN conjunct1] h4
    by (rule mp [THEN conjunct1])
  show ?thesis
    apply (intro conjI)
    apply (rule h1 [THEN conjunct1])
    apply (rule h1 [THEN conjunct2, THEN conjunct1])
    apply (rule h1 [THEN conjunct2, THEN conjunct2, THEN conjunct1])
    apply (rule h1 [THEN conjunct2, THEN conjunct2, THEN conjunct2])
    apply (rule c1)
    apply (rule h2 [THEN conjunct1])
    apply (rule h2 [THEN conjunct2])
    apply (rule c2)
    apply (rule h3 [THEN conjunct1])
    apply (rule h3 [THEN conjunct2, THEN conjunct1])
    apply (rule h3 [THEN conjunct2, THEN conjunct2, THEN conjunct1])
    apply (rule h3 [THEN conjunct2, THEN conjunct2, THEN conjunct2])
    apply (rule c3)
    apply (rule c4 [THEN conjunct1])
    apply (rule c5)
    apply (rule c4 [THEN conjunct2])
    apply (rule h4)
    apply (rule c6)
    done
qed

text \<open>
  C4 as stated does not hold, since the length is checked after stripping: a submitted
  name of 101 characters, one space followed by 100 letters, is accepted, and a name of
  exactly 100 characters, all of them spaces, is rejected.
\<close>

theorem name_length_counterexample:
  "length (CHR '' '' # replicate 100 (CHR ''a'')) = 101 \<and>
   fst (is_valid at_sign_check (ContactForm (Some
     [(''name'', CHR '' '' # replicate 100 (CHR ''a'')),
      (''email'', ''ada@example.com''), (''message'', ''hi'')]))) \<and>
   length (replicate 100 (CHR '' '')) = 100 \<and>
   \<not> fst (is_valid at_sign_check (ContactForm (Some
     [(''name'', replicate 100 (CHR '' '')),
      (''email'', ''ada@example.com''), (''message'', ''hi'')])))"
proof -
  have "strip (replicate 100 (CHR '' '')) = []"
    by (rule strip_all_space) (simp add: isspace_space)
  then show ?thesis
    by (simp add: is_valid_ContactForm_iff QueryDict_get_def strip_plain at_sign_check_def
        strip_space_replicate [OF not_isspace_a])
qed

text \<open>
  C10. On a \<open>POST\<close> request whose \<open>name\<close> consists of whitespace only, validation fails
  with the same error a missing name gets (\<open>required\<close>), and \<open>form_example\<close> renders
  \<open>form.html\<close> again; likewise for \<open>message\<close>. A character field strips the value before
  the required check, so on a \<open>POST\<close> request that validates the name in the success
  context is the submitted name with surrounding whitespace stripped.
\<close>

theorem whitespace_only_rejected:
  "(http_method request = ''POST'' \<and> QueryDict_get (POST request) ''name'' = Some n \<and>
    (\<forall>c \<in> set n. isspace c) \<longrightarrow>
      map_of (fst (errors ve (ContactForm (Some (POST request))))) ''name'' = Some [Required] \<and>
      \<not> fst (is_valid ve (ContactForm (Some (POST request)))) \<and>
      (\<exists>form. form_example ve request =
                 Inr \<lparr>template_name = ''form.html'',
                      context_data = [(''form'', PForm form)]\<rparr> \<and>
               errors_cache form =
                 Some (fst (errors ve (ContactForm (Some (POST request))))))) \<and>
   (http_method request = ''POST'' \<and> QueryDict_get (POST request) ''message'' = Some m \<and>
    (\<forall>c \<in> set m. isspace c) \<longrightarrow>
      map_of (fst (errors ve (ContactForm (Some (POST request))))) ''message'' = Some [Required] \<and>
      \<not> fst (is_valid ve (ContactForm (Some (POST request)))) \<and>
      (\<exists>form. form_example ve request =
                 Inr \<lparr>template_name = ''form.html'',
                      context_data = [(''form'', PForm form)]\<rparr> \<and>
               errors_cache form =
                 Some (fst (errors ve (ContactForm (Some (POST request))))))) \<and>
   (QueryDict_get d ''name'' = None \<longrightarrow>
      map_of (fst (errors ve (ContactForm (Some d)))) ''name'' = Some [Required]) \<and>
   (QueryDict_get d ''message'' = None \<longrightarrow>
      map_of (fst (errors ve (ContactForm (Some d)))) ''message'' = Some [Required]) \<and>
   (http_method request = ''POST'' \<and>
    fst (is_valid ve (ContactForm (Some (POST request)))) \<longrightarrow>
      (\<exists>s. QueryDict_get (POST request) ''name'' = Some s \<and>
           form_example ve request =
             Inr \<lparr>template_name = ''form_success.html'',
                  context_data = [(''name'', PStr (strip s))]\<rparr>))"
proof -
  have inv: "\<exists>form. form_example ve request =
                 Inr \<lparr>template_name = ''form.html'',
                      context_data = [(''form'', PForm form)]\<rparr> \<and>
               errors_cache form =
                 Some (fst (errors ve (ContactForm (Some (POST request)))))"
    if "http_method request = ''POST''"
      and "\<not> fst (is_valid ve (ContactForm (Some (POST request))))"
    using form_example_POST_invalid [OF that] by (simp add: render_def)
  have a: "map_of (fst (errors ve (ContactForm (Some (POST request))))) ''name'' = Some [Required]"
    if "QueryDict_get (POST request) ''name'' = Some n" and "\<forall>c \<in> set n. isspace c"
    using that by (simp add: name_errors strip_all_space)
  have b: "map_of (fst (errors ve (ContactForm (Some (POST request))))) ''message''
      = Some [Required]"
    if "QueryDict_get (POST request) ''message'' = Some m" and "\<forall>c \<in> set m. isspace c"
    using that by (simp add: message_errors strip_all_space)
  have a': "\<not> fst (is_valid ve (ContactForm (Some (POST request))))"
    if "QueryDict_get (POST request) ''name'' = Some n" and "\<forall>c \<in> set n. isspace c"
    using a [OF that] by (simp add: valid_iff_three_fields)
  have b': "\<not> fst (is_valid ve (ContactForm (Some (POST request))))"
    if "QueryDict_get (POST request) ''message'' = Some m" and "\<forall>c \<in> set m. isspace c"
    using b [OF that] by (simp add: valid_iff_three_fields)
  have c: "QueryDict_get d ''name'' = None \<longrightarrow>
      map_of (fst (errors ve (ContactForm (Some d)))) ''name'' = Some [Required]"
    by (simp add: name_errors)
  have c': "QueryDict_get d ''message'' = None \<longrightarrow>
      map_of (fst (errors ve (ContactForm (Some d)))) ''message'' = Some [Required]"
    by (simp add: message_errors)
  have s: "\<exists>s. QueryDict_get (POST request) ''name'' = Some s \<and>
           form_example ve request =
             Inr \<lparr>template_name = ''form_success.html'',
                  context_data = [(''name'', PStr (strip s))]\<rparr>"
    if "http_method request = ''POST''"
      and "fst (is_valid ve (ContactForm (Some (POST request))))"
    using form_example_POST_valid [OF that] by (simp add: render_def)
  show ?thesis
    using inv a b a' b' c c' s by (intro conjI impI) blast+
qed

theorem whitespace_only_rejected_witness:
  "(http_method \<lparr>http_method = ''POST'',
       POST = [(''name'', ''  ''), (''email'', ''ada@example.com''),
               (''message'', [CHR 0x09, CHR '' ''])]\<rparr> = ''POST'' \<and>
    list_all isspace ''  '' \<and> list_all isspace [CHR 0x09, CHR '' ''] \<and>
    map_of (fst (errors at_sign_check (ContactForm (Some
       [(''name'', ''  ''), (''email'', ''ada@example.com''),
        (''message'', [CHR 0x09, CHR '' ''])])))) ''name'' = Some [Required] \<and>
    map_of (fst (errors at_sign_check (ContactForm (Some
       [(''name'', ''  ''), (''email'', ''ada@example.com''),
        (''message'', [CHR 0x09, CHR '' ''])])))) ''message'' = Some [Required] \<and>
    \<not> fst (is_valid at_sign_check (ContactForm (Some
       [(''name'', ''  ''), (''email'', ''ada@example.com''),
        (''message'', [CHR 0x09, CHR '' ''])])))) \<and>
   (QueryDict_get [] ''name'' = None \<and>
    map_of (fst (errors at_sign_check (ContactForm (Some [])))) ''name'' = Some [Required]) \<and>
   (fst (is_valid at_sign_check (ContactForm (Some
       [(''name'', '' Ada ''), (''email'', ''ada@example.com''), (''message'', ''hi'')]))) \<and>
    form_example at_sign_check
      \<lparr>http_method = ''POST'',
       POST = [(''name'', '' Ada ''), (''email'', ''ada@example.com''), (''message'', ''hi'')]\<rparr> =
      Inr \<lparr>template_name = ''form_success.html'',
           context_data = [(''name'', PStr ''Ada'')]\<rparr>)"
proof -
  let ?d1 = "[(''name'', ''  ''), (''email'', ''ada@example.com''),
               (''message'', [CHR 0x09, CHR '' ''])]"
  let ?r1 = "\<lparr>http_method = ''POST'', POST = ?d1\<rparr>"
  let ?d2 = "[(''name'', '' Ada ''), (''email'', ''ada@example.com''), (''message'', ''hi'')]"
  let ?r2 = "\<lparr>http_method = ''POST'', POST = ?d2\<rparr>"
  have sp: "list_all isspace ''  ''" "list_all isspace [CHR 0x09, CHR '' '']"
    by (simp_all add: isspace_def)
  have m1: "http_method ?r1 = ''POST''"
    by simp
  have h1: "http_method ?r1 = ''POST'' \<and> QueryDict_get (POST ?r1) ''name'' = Some ''  '' \<and>
    (\<forall>c \<in> set ''  ''. isspace c)"
    by (simp add: QueryDict_get_def isspace_def)
  have h2: "http_method ?r1 = ''POST'' \<and>
    QueryDict_get (POST ?r1) ''message'' = Some [CHR 0x09, CHR '' ''] \<and>
    (\<forall>c \<in> set [CHR 0x09, CHR '' '']. isspace c)"
    by (simp add: QueryDict_get_def isspace_def)
  have h3: "QueryDict_get [] ''name'' = None"
    by (simp add: QueryDict_get_def)
  have sa: "strip '' Ada '' = ''Ada''"
    by (simp add: strip_def isspace_def)
  have h4: "http_method ?r2 = ''POST'' \<and> fst (is_valid at_sign_check (ContactForm (Some (POST ?r2))))"
    by (simp add: is_valid_ContactForm_iff QueryDict_get_def strip_plain sa at_sign_check_def)
  note t1 = whitespace_only_rejected
    [of ?r1 "''  ''" at_sign_check "[CHR 0x09, CHR '' '']" "[]"]
  note t2 = whitespace_only_rejected [of ?r2 "[]" at_sign_check "[]" "[]"]
  have c1: "map_of (fst (errors at_sign_check (ContactForm (Some (POST ?r1))))) ''name''
      = Some [Required]"
    using t1 [THEN conjunct1] h1 by (rule mp [THEN conjunct1])
  have c2: "map_of (fst (errors at_sign_check (ContactForm (Some (POST ?r1))))) ''message''
      = Some [Required]"
    using t1 [THEN conjunct2, THEN conjunct1] h2 by (rule mp [THEN conjunct1])
  have c3: "\<not> fst (is_valid at_sign_check (ContactForm (Some (POST ?r1))))"
    using t1 [THEN conjunct1] h1 by (rule mp [THEN conjunct2, THEN conjunct1])
  have c4: "map_of (fst (errors at_sign_check (ContactForm (Some [])))) ''name'' = Some [Required]"
    using t1 [THEN conjunct2, THEN conjunct2, THEN conjunct1] h3 by (rule mp)
  have "\<exists>s. QueryDict_get (POST ?r2) ''name'' = Some s \<and>
           form_example at_sign_check ?r2 =
             Inr \<lparr>template_name = ''form_success.html'',
                  context_data = [(''name'', PStr (strip s))]\<rparr>"
    using t2 [THEN conjunct2, THEN conjunct2, THEN conjunct2, THEN conjunct2] h4 by (rule mp)
  then have c5: "form_example at_sign_check ?r2 =
      Inr \<lparr>template_name = ''form_success.html'', context_data = [(''name'', PStr ''Ada'')]\<rparr>"
    by (simp add: QueryDict_get_def sa)
  from sp m1 c1 c2 c3 h3 c4 h4 c5 show ?thesis
    by simp
qed

section \<open>The static views\<close>

text \<open>
  C5. For every request, the context of \<open>index\<close> has a \<open>user\<close> record with exactly the
  keys \<open>name\<close>, \<open>email\<close>, \<open>role\<close>, and a \<open>notifications\<close> list of two records, in
  the order written, whose \<open>type\<close> values are \<open>info\<close> and then \<open>success\<close>.
\<close>

theorem index_context:
  "template_name (index request) = ''index.html'' \<and>
   map fst (context_data (index request)) = [''user'', ''notifications''] \<and>
   (\<exists>user ns.
      map_of (context_data (index request)) ''user'' = Some user \<and>
      keys user = [''name'', ''email'', ''role''] \<and>
      map_of (context_data (index request)) ''notifications'' = Some (PList ns) \<and>
      length ns = 2 \<and>
      map (\<lambda>n. item n ''type'') ns = [Some (PStr ''info''), Some (PStr ''success'')] \<and>
      map (\<lambda>n. item n ''text'') ns =
        [Some (PStr ''Welcome to rnxJS!''), Some (PStr ''You have 3 new messages'')])"
  by (simp add: index_def render_def)

text \<open>
  C6. For every request, the context of \<open>components_example\<close> has a \<open>users\<close> list of
  length 3 in which every row's \<open>status\<close> is \<open>active\<close> or \<open>inactive\<close>, and a \<open>columns\<close>
  list of length 4 whose \<open>key\<close> values are \<open>id\<close>, \<open>name\<close>, \<open>email\<close>, \<open>status\<close> in that
  order.
\<close>

theorem components_context:
  "template_name (components_example request) = ''components.html'' \<and>
   (\<exists>users columns.
      map_of (context_data (components_example request)) ''users'' = Some (PList users) \<and>
      length users = 3 \<and>
      list_all (\<lambda>row. item row ''status'' = Some (PStr ''active'') \<or>
                       item row ''status'' = Some (PStr ''inactive'')) users \<and>
      map_of (context_data (components_example request)) ''columns'' = Some (PList columns) \<and>
      length columns = 4 \<and>
      map (\<lambda>c. item c ''key'') columns =
        [Some (PStr ''id''), Some (PStr ''name''), Some (PStr ''email''), Some (PStr ''status'')])"
  by (simp add: components_example_def render_def)

text \<open>
  C7. For every request, the context of \<open>plugins_example\<close> has a \<open>routes\<close> mapping with
  exactly four entries, whose keys are \<open>/\<close>, \<open>/users\<close>, \<open>/settings\<close> and \<open>/about\<close>.
\<close>

theorem plugins_context:
  "template_name (plugins_example request) = ''plugins.html'' \<and>
   (\<exists>routes.
      map_of (context_data (plugins_example request)) ''routes'' = Some routes \<and>
      length (keys routes) = 4 \<and>
      distinct (keys routes) \<and>
      set (keys routes) = {''/'', ''/users'', ''/settings'', ''/about''})"
  by (auto simp: plugins_example_def render_def)

text \<open>
  C8. \<open>index\<close>, \<open>components_example\<close> and \<open>plugins_example\<close> do not depend on the request:
  for any two requests, whatever their method and submitted data, each of them returns
  the same template and the same context.
\<close>

theorem static_views_ignore_request:
  "index r1 = index r2 \<and>
   components_example r1 = components_example r2 \<and>
   plugins_example r1 = plugins_example r2"
  by (simp add: index_def components_example_def plugins_example_def render_def)

text \<open>
  C9. In the \<open>notifications\<close> list of \<open>index\<close> and in the \<open>users\<close> list of
  \<open>components_example\<close>, every record's \<open>id\<close> is an integer and the ids of a list are
  pairwise distinct.
\<close>

theorem ids_distinct:
  "(\<exists>ns.
      map_of (context_data (index request)) ''notifications'' = Some (PList ns) \<and>
      list_all (\<lambda>n. \<exists>i. item n ''id'' = Some (PInt i)) ns \<and>
      distinct (map (\<lambda>n. item n ''id'') ns)) \<and>
   (\<exists>users.
      map_of (context_data (components_example request)) ''users'' = Some (PList users) \<and>
      list_all (\<lambda>u. \<exists>i. item u ''id'' = Some (PInt i)) users \<and>
      distinct (map (\<lambda>u. item u ''id'') users))"
  by (simp add: index_def components_example_def render_def)

end
